theory Spec2Isabelle
  imports Complex_Main "HOL-Library.AList"
begin

section \<open>Summary generation (lib/gemini.ts)\<close>

text \<open>
  The value of \<^verbatim>\<open>JSON.parse\<close>: numbers are rationals, an object lists its properties.
\<close>

datatype json =
    JNull
  | JBool bool
  | JNum rat
  | JStr string
  | JArr "json list"
  | JObj "(string \<times> json) list"

text \<open>What \<^verbatim>\<open>generateSummary\<close> resolves to. The fields hold whatever the parsed
  object held, so they are JSON values; the fallback stores the raw text as a string.\<close>

record summary_data =
  summary :: json
  keyPoints :: json
  actionItems :: json
  decisions :: json

text \<open>JavaScript truthiness of a JSON value, as \<^verbatim>\<open>||\<close> tests it.\<close>

fun truthy :: "json \<Rightarrow> bool" where
  "truthy JNull = False"
| "truthy (JBool b) = b"
| "truthy (JNum n) = (n \<noteq> 0)"
| "truthy (JStr s) = (s \<noteq> [])"
| "truthy (JArr xs) = True"
| "truthy (JObj kvs) = True"

text \<open>\<^verbatim>\<open>parsed.key || dflt\<close>: a missing property reads as undefined, which is falsy.\<close>

definition prop_or :: "(string \<times> json) list \<Rightarrow> string \<Rightarrow> json \<Rightarrow> json" where
  "prop_or parsed key dflt =
     (case map_of parsed key of
        None \<Rightarrow> dflt
      | Some v \<Rightarrow> if truthy v then v else dflt)"

text \<open>
  \<^verbatim>\<open>text.match(/\{[\s\S]*\}/)\<close>: the star is greedy and matches any character, so the
  match runs from the first opening brace to the last closing brace after it; there is no
  match (null) when no closing brace follows the first opening brace.
\<close>

definition jsonMatch :: "string \<Rightarrow> string option" where
  "jsonMatch text =
     (let rest = dropWhile (\<lambda>c. c \<noteq> CHR ''{'') text;
          body = rev (dropWhile (\<lambda>c. c \<noteq> CHR ''}'') (rev rest))
      in if body = [] then None else Some body)"

definition nl :: string where
  "nl = [CHR 0x0A]"

definition prompt :: "string \<Rightarrow> string" where
  "prompt fullTranscript =
     ''Analyze this meeting transcript and provide:'' @ nl @
     ''1. A concise summary (2-3 paragraphs)'' @ nl @
     ''2. Key points discussed (bullet points)'' @ nl @
     ''3. Action items identified (with owners if mentioned)'' @ nl @
     ''4. Decisions made'' @ nl @ nl @
     ''Format as JSON with fields: summary, keyPoints (array), actionItems (array), decisions (array).'' @ nl @ nl @
     ''Transcript:'' @ nl @ fullTranscript"

definition fallback :: "string \<Rightarrow> summary_data" where
  "fallback text =
     \<lparr>summary = JStr text, keyPoints = JArr [], actionItems = JArr [], decisions = JArr []\<rparr>"

text \<open>
  \<^verbatim>\<open>generateSummary\<close>. Its two collaborators are parameters:
  \<^item> \<open>api\<close> is the model call (\<^verbatim>\<open>generateContent\<close>, \<^verbatim>\<open>result.response\<close>,
    \<^verbatim>\<open>response.text()\<close>): \<open>Inr text\<close> is the response text, \<open>Inl e\<close> a throw;
  \<^item> \<open>parse\<close> is \<^verbatim>\<open>JSON.parse\<close> on a text that starts with a brace: \<open>None\<close> is its
    SyntaxError, \<open>Some kvs\<close> the properties of the parsed object.
  The inner try swallows the parse error and falls through to the fallback; the outer
  catch rethrows as \<^verbatim>\<open>Summary generation failed: ...\<close>.
\<close>

definition generateSummary ::
  "(string \<Rightarrow> (string \<times> json) list option) \<Rightarrow> (string \<Rightarrow> string + string) \<Rightarrow> string
     \<Rightarrow> string + summary_data" where
  "generateSummary parse api fullTranscript =
     (case api (prompt fullTranscript) of
        Inl e \<Rightarrow> Inl (''Summary generation failed: '' @ e)
      | Inr text \<Rightarrow>
          (case jsonMatch text of
             None \<Rightarrow> Inr (fallback text)
           | Some m \<Rightarrow>
               (case parse m of
                  None \<Rightarrow> Inr (fallback text)
                | Some parsed \<Rightarrow>
                    Inr \<lparr>summary = prop_or parsed ''summary'' (JStr text),
                         keyPoints = prop_or parsed ''keyPoints'' (JArr []),
                         actionItems = prop_or parsed ''actionItems'' (JArr []),
                         decisions = prop_or parsed ''decisions'' (JArr [])\<rparr>)))"

section \<open>Session state (sockets/recording.ts)\<close>

datatype audio_source = microphone | tab_share

datatype status = recording | paused | processing | completed | failed

type_synonym buffer = "nat list"

text \<open>The interface \<^verbatim>\<open>SessionData\<close>. Times are \<^verbatim>\<open>Date.now()\<close> readings in
  milliseconds; \<open>pausedAt = None\<close> is the absent (undefined) field.\<close>

record SessionData =
  sessionId :: string
  userId :: "string option"
  audioChunks :: "buffer list"
  transcriptChunks :: "string list"
  chunkIndex :: nat
  startTime :: int
  pausedAt :: "int option"
  totalPausedDuration :: int
  audioSource :: audio_source

text \<open>Rows of the three tables the handlers write. The title and the columns that
  hold renderings of the wall clock (created_at, updated_at, completed_at) are left out.\<close>

record session_row =
  row_user_id :: "string option"
  row_status :: status
  row_audio_source :: audio_source
  row_duration :: int

record transcript_row =
  tr_session_id :: string
  tr_full_text :: string
  tr_summary :: summary_data

record chunk_row =
  ch_session_id :: string
  ch_chunk_index :: nat
  ch_text :: string
  ch_timestamp :: int
  ch_confidence :: "rat option"

text \<open>What a handler emits, and to whom: \<^verbatim>\<open>io.to(sessionId)\<close> is a room,
  \<^verbatim>\<open>socket\<close> is the connection the handler serves.\<close>

datatype message =
    SessionStatus status string int
  | ChunkProcessing nat int
  | TranscriptionUpdate nat string int "rat option"
  | TranscriptionError nat string
  | SessionComplete string int string summary_data int
  | ErrorMsg string

datatype target = Room string | Socket nat

text \<open>
  The server's state. Session objects live in \<open>heap\<close> and are named by their index,
  because the promise callbacks and the stop handler keep the object they looked up while
  the registry may be given another object for the same id, or none. \<open>activeSessions\<close>
  is the JavaScript Map in insertion order. The store applies every write it is sent;
  the \<open>sessions\<close> table is keyed by the row id.
\<close>

record world =
  heap :: "SessionData list"
  activeSessions :: "(string \<times> nat) list"
  sessions :: "string \<rightharpoonup> session_row"
  transcripts :: "transcript_row list"
  transcript_chunks :: "chunk_row list"
  emitted :: "(target \<times> message) list"

definition init :: world where
  "init = \<lparr>heap = [], activeSessions = [], sessions = Map.empty, transcripts = [],
            transcript_chunks = [], emitted = []\<rparr>"

definition emit :: "target \<Rightarrow> message \<Rightarrow> world \<Rightarrow> world" where
  "emit t m w = w\<lparr>emitted := emitted w @ [(t, m)]\<rparr>"

text \<open>\<^verbatim>\<open>update({...}).eq('id', sid)\<close> changes the row with that id, if there is one.\<close>

definition update_row ::
  "string \<Rightarrow> (session_row \<Rightarrow> session_row) \<Rightarrow> world \<Rightarrow> world" where
  "update_row sid f w =
     (case sessions w sid of
        None \<Rightarrow> w
      | Some row \<Rightarrow> w\<lparr>sessions := (sessions w)(sid \<mapsto> f row)\<rparr>)"

text \<open>\<^verbatim>\<open>insert\<close> of a row whose id is taken is the store's error, which the handler logs.\<close>

definition insert_row :: "string \<Rightarrow> session_row \<Rightarrow> world \<Rightarrow> world" where
  "insert_row sid row w =
     (case sessions w sid of
        None \<Rightarrow> w\<lparr>sessions := (sessions w)(sid \<mapsto> row)\<rparr>
      | Some _ \<Rightarrow> w)"

text \<open>Mutation of the session object at index \<open>r\<close>.\<close>

definition modify :: "nat \<Rightarrow> (SessionData \<Rightarrow> SessionData) \<Rightarrow> world \<Rightarrow> world" where
  "modify r f w = w\<lparr>heap := (heap w)[r := f (heap w ! r)]\<rparr>"

text \<open>Truthiness of the optional number \<^verbatim>\<open>session.pausedAt\<close>: undefined and 0 are falsy.\<close>

definition is_set :: "int option \<Rightarrow> bool" where
  "is_set p = (case p of None \<Rightarrow> False | Some t \<Rightarrow> t \<noteq> 0)"

text \<open>\<^verbatim>\<open>Array.prototype.join(' ')\<close> on strings.\<close>

fun join_sp :: "string list \<Rightarrow> string" where
  "join_sp [] = []"
| "join_sp [x] = x"
| "join_sp (x # y # ys) = x @ '' '' @ join_sp (y # ys)"

section \<open>Handlers\<close>

text \<open>
  Each handler is run to its end in one step, with the clock readings it takes as
  arguments: \<open>now\<close> is the reading stored in the session, \<open>ts\<close> the later one sent in the
  notification. The two places where the source hands over to long-running work are two
  steps each: the audio-chunk handler returns the closure of its transcription promise
  (\<open>pending\<close>), settled by \<open>transcription_settled\<close>; the stop handler returns what it
  holds across its two-second wait (\<open>stopping\<close>), resumed by \<open>stop_finish\<close>.
  Room membership (\<^verbatim>\<open>socket.join\<close>) is transport state and is left out.
\<close>

definition start_session ::
  "string \<Rightarrow> string option \<Rightarrow> audio_source \<Rightarrow> int \<Rightarrow> int \<Rightarrow> world \<Rightarrow> world" where
  "start_session sid uid src now ts w =
     (let sessionData =
            \<lparr>sessionId = sid, userId = uid, audioChunks = [], transcriptChunks = [],
             chunkIndex = 0, startTime = now, pausedAt = None, totalPausedDuration = 0,
             audioSource = src\<rparr>;
          w1 = w\<lparr>heap := heap w @ [sessionData],
                 activeSessions := AList.update sid (length (heap w)) (activeSessions w)\<rparr>;
          w2 = insert_row sid
                 \<lparr>row_user_id = uid, row_status = recording, row_audio_source = src,
                  row_duration = 0\<rparr> w1
      in emit (Room sid) (SessionStatus recording sid ts) w2)"

record pending =
  p_session :: nat
  p_sessionId :: string
  p_chunkIndex :: nat
  p_timestamp :: int

definition audio_chunk ::
  "nat \<Rightarrow> string \<Rightarrow> buffer \<Rightarrow> int \<Rightarrow> world \<Rightarrow> world \<times> pending option" where
  "audio_chunk sock sid chunk timestamp w =
     (case map_of (activeSessions w) sid of
        None \<Rightarrow> (emit (Socket sock) (ErrorMsg ''Session not found'') w, None)
      | Some r \<Rightarrow>
          (let n = chunkIndex (heap w ! r);
               w1 = modify r (\<lambda>s. s\<lparr>audioChunks := audioChunks s @ [chunk],
                                     chunkIndex := chunkIndex s + 1\<rparr>) w
           in (emit (Room sid) (ChunkProcessing n timestamp) w1,
               Some \<lparr>p_session = r, p_sessionId = sid, p_chunkIndex = n,
                     p_timestamp = timestamp\<rparr>)))"

text \<open>The outcome of \<^verbatim>\<open>transcribeAudioChunk\<close>: the rejection's message, or the text
  and the confidence.\<close>

definition transcription_settled ::
  "pending \<Rightarrow> string + string \<times> rat option \<Rightarrow> world \<Rightarrow> world" where
  "transcription_settled p outcome w =
     (case outcome of
        Inr (text, confidence) \<Rightarrow>
          (let w1 = modify (p_session p)
                      (\<lambda>s. s\<lparr>transcriptChunks := transcriptChunks s @ [text]\<rparr>) w;
               w2 = w1\<lparr>transcript_chunks := transcript_chunks w1 @
                         [\<lparr>ch_session_id = p_sessionId p, ch_chunk_index = p_chunkIndex p,
                           ch_text = text, ch_timestamp = p_timestamp p,
                           ch_confidence = confidence\<rparr>]\<rparr>
           in emit (Room (p_sessionId p))
                (TranscriptionUpdate (p_chunkIndex p) text (p_timestamp p) confidence) w2)
      | Inl msg \<Rightarrow>
          emit (Room (p_sessionId p)) (TranscriptionError (p_chunkIndex p) msg) w)"

definition pause_session :: "nat \<Rightarrow> string \<Rightarrow> int \<Rightarrow> int \<Rightarrow> world \<Rightarrow> world" where
  "pause_session sock sid now ts w =
     (case map_of (activeSessions w) sid of
        None \<Rightarrow> emit (Socket sock) (ErrorMsg ''Session not found'') w
      | Some r \<Rightarrow>
          (let w1 = modify r (\<lambda>s. s\<lparr>pausedAt := Some now\<rparr>) w;
               w2 = update_row sid (\<lambda>row. row\<lparr>row_status := paused\<rparr>) w1
           in emit (Room sid) (SessionStatus paused sid ts) w2))"

text \<open>\<^verbatim>\<open>if (session.pausedAt)\<close> is a truthiness test: the branch is skipped when the field
  is absent and when it holds 0.\<close>

definition resume_session :: "nat \<Rightarrow> string \<Rightarrow> int \<Rightarrow> int \<Rightarrow> world \<Rightarrow> world" where
  "resume_session sock sid now ts w =
     (case map_of (activeSessions w) sid of
        None \<Rightarrow> emit (Socket sock) (ErrorMsg ''Session not found'') w
      | Some r \<Rightarrow>
          (let w1 = (case pausedAt (heap w ! r) of
                       None \<Rightarrow> w
                     | Some t \<Rightarrow>
                         if t = 0 then w
                         else modify r
                                (\<lambda>s. s\<lparr>totalPausedDuration := totalPausedDuration s + (now - t),
                                        pausedAt := None\<rparr>) w);
               w2 = update_row sid (\<lambda>row. row\<lparr>row_status := recording\<rparr>) w1
           in emit (Room sid) (SessionStatus recording sid ts) w2))"

record stopping =
  k_session :: nat
  k_sessionId :: string
  k_duration :: int

text \<open>The stop handler up to its wait. \<^verbatim>\<open>Math.floor(x / 1000)\<close> on an integer is
  \<open>div\<close>, which rounds down.\<close>

definition stop_begin ::
  "nat \<Rightarrow> string \<Rightarrow> int \<Rightarrow> int \<Rightarrow> world \<Rightarrow> world \<times> stopping option" where
  "stop_begin sock sid now ts w =
     (case map_of (activeSessions w) sid of
        None \<Rightarrow> (emit (Socket sock) (ErrorMsg ''Session not found'') w, None)
      | Some r \<Rightarrow>
          (let session = heap w ! r;
               duration = (now - startTime session - totalPausedDuration session) div 1000;
               w1 = update_row sid
                      (\<lambda>row. row\<lparr>row_status := processing, row_duration := duration\<rparr>) w
           in (emit (Room sid) (SessionStatus processing sid ts) w1,
               Some \<lparr>k_session = r, k_sessionId = sid, k_duration = duration\<rparr>)))"

text \<open>The stop handler after its wait: the join, the summary, the writes, the clean-up;
  and the catch block when \<^verbatim>\<open>generateSummary\<close> throws.\<close>

definition stop_finish ::
  "(string \<Rightarrow> (string \<times> json) list option) \<Rightarrow> (string \<Rightarrow> string + string) \<Rightarrow>
     nat \<Rightarrow> stopping \<Rightarrow> int \<Rightarrow> world \<Rightarrow> world" where
  "stop_finish parse api sock k ts w =
     (let sid = k_sessionId k;
          fullTranscript = join_sp (transcriptChunks (heap w ! k_session k))
      in case generateSummary parse api fullTranscript of
           Inr summaryData \<Rightarrow>
             (let w1 = w\<lparr>transcripts := transcripts w @
                          [\<lparr>tr_session_id = sid, tr_full_text = fullTranscript,
                            tr_summary = summaryData\<rparr>]\<rparr>;
                  w2 = update_row sid (\<lambda>row. row\<lparr>row_status := completed\<rparr>) w1;
                  w3 = emit (Room sid)
                         (SessionComplete sid (k_duration k) fullTranscript summaryData ts) w2
              in w3\<lparr>activeSessions := AList.delete sid (activeSessions w3)\<rparr>)
         | Inl e \<Rightarrow>
             (let w1 = (case map_of (activeSessions w) sid of
                          None \<Rightarrow> w
                        | Some _ \<Rightarrow> update_row sid (\<lambda>row. row\<lparr>row_status := failed\<rparr>) w)
              in emit (Socket sock) (ErrorMsg ''Failed to complete session processing'') w1))"

text \<open>
  The body of the disconnect handler's \<^verbatim>\<open>forEach\<close>, and the handler. \<open>clock sid\<close> is the
  reading taken when the loop is at session \<open>sid\<close>. The handler builds the update of the
  row's status (\<^verbatim>\<open>supabase.from('sessions').update({...}).eq('id', sessionId)\<close>) but
  neither awaits it nor chains a \<^verbatim>\<open>then\<close>; the query builder sends its request only when
  it is awaited, so this update never reaches the store, unlike the awaited updates of
  the other handlers. The body therefore changes the session object only.
\<close>

definition auto_pause :: "(string \<Rightarrow> int) \<Rightarrow> world \<Rightarrow> string \<times> nat \<Rightarrow> world" where
  "auto_pause clock w e =
     (case e of (sid, r) \<Rightarrow>
        if \<not> is_set (pausedAt (heap w ! r))
        then modify r (\<lambda>s. s\<lparr>pausedAt := Some (clock sid)\<rparr>) w
        else w)"

definition disconnect :: "(string \<Rightarrow> int) \<Rightarrow> world \<Rightarrow> world" where
  "disconnect clock w = foldl (auto_pause clock) w (activeSessions w)"

section \<open>Registry invariant and sample runs\<close>

text \<open>
  What the Map and the allocation of objects guarantee: one entry per id, one object per
  entry, every entry names an allocated object.
\<close>

definition wf :: "world \<Rightarrow> bool" where
  "wf w = (distinct (map fst (activeSessions w)) \<and> distinct (map snd (activeSessions w))
           \<and> list_all (\<lambda>e. snd e < length (heap w)) (activeSessions w))"

text \<open>A clock that reads the same instant at every session of a disconnect sweep.\<close>

definition same_instant :: "int \<Rightarrow> string \<Rightarrow> int" where
  "same_instant t sid = t"

text \<open>Session S started at 1000 ms on an empty server; then paused at 2000; or sent one
  chunk at 2000; or stopped at 9000 and waiting for its summary.\<close>

definition recording_world :: world where
  "recording_world = start_session ''S'' None microphone 1000 1001 init"

definition paused_world :: world where
  "paused_world = pause_session 7 ''S'' 2000 2001 recording_world"

definition one_chunk_world :: world where
  "one_chunk_world = fst (audio_chunk 7 ''S'' [1, 2, 3] 2000 recording_world)"

definition processing_world :: world where
  "processing_world = fst (stop_begin 7 ''S'' 9000 9001 recording_world)"

section \<open>Properties\<close>

lemmas handler_defs = start_session_def audio_chunk_def transcription_settled_def
  pause_session_def resume_session_def stop_begin_def stop_finish_def
  emit_def update_row_def insert_row_def modify_def init_def

subsection \<open>Order of the transcript\<close>

text \<open>A settled transcription is pushed at the end of the session's texts, whatever its
  chunk index.\<close>

lemma settled_appends:
  "p_session p < length (heap w) \<Longrightarrow>
   transcriptChunks (heap (transcription_settled p (Inr (text, c)) w) ! p_session p) =
     transcriptChunks (heap w ! p_session p) @ [text]"
  by (simp add: handler_defs Let_def)

text \<open>So the texts of a session are in the order in which its transcriptions settled.\<close>

lemma settle_in_order:
  assumes "r < length (heap w)" and "list_all (\<lambda>x. p_session (fst x) = r) ps"
  shows "transcriptChunks
           (heap (foldl (\<lambda>w x. transcription_settled (fst x) (Inr (snd x)) w) w ps) ! r) =
         transcriptChunks (heap w ! r) @ map (\<lambda>x. fst (snd x)) ps"
  using assms
proof (induction ps arbitrary: w)
  case Nil
  then show ?case by simp
next
  case (Cons x ps)
  obtain p tx c where x: "x = (p, tx, c)" by (cases x)
  let ?w1 = "transcription_settled p (Inr (tx, c)) w"
  from Cons.prems x have pr: "p_session p = r" by simp
  have len: "length (heap ?w1) = length (heap w)"
    by (simp add: handler_defs Let_def)
  have one: "transcriptChunks (heap ?w1 ! r) = transcriptChunks (heap w ! r) @ [tx]"
    using settled_appends [of p w tx c] Cons.prems(1) pr by simp
  have "transcriptChunks
           (heap (foldl (\<lambda>w x. transcription_settled (fst x) (Inr (snd x)) w) ?w1 ps) ! r) =
         transcriptChunks (heap ?w1 ! r) @ map (\<lambda>x. fst (snd x)) ps"
    using Cons.prems by (intro Cons.IH) (simp_all add: len)
  then show ?case by (simp add: x one)
qed

text \<open>
  C1. The spec asks for the full text in ascending sequence number, whatever order the
  transcriptions complete in. The code joins the texts in the order they were pushed,
  which is completion order: a session with chunks 0 and 1, where chunk 1 settles first
  with \<open>text1\<close> and chunk 0 then settles with \<open>text0\<close>, is persisted with the transcript
  \<open>text1\<close>, a space, \<open>text0\<close>.
\<close>

theorem transcript_in_completion_order:
  "(let w0 = start_session ''S'' None microphone 1000 1001 init;
        (w1, p0) = audio_chunk 7 ''S'' b0 2000 w0;
        (w2, p1) = audio_chunk 7 ''S'' b1 3000 w1;
        w3 = transcription_settled (the p1) (Inr (text1, c1)) w2;
        w4 = transcription_settled (the p0) (Inr (text0, c0)) w3;
        (w5, k) = stop_begin 7 ''S'' 9000 9001 w4;
        w6 = stop_finish (\<lambda>_. None) (\<lambda>_. Inr ''Two remarks.'') 7 (the k) 12000 w5
    in (map p_chunkIndex [the p0, the p1], map tr_full_text (transcripts w6)))
   = ([0, 1], [text1 @ '' '' @ text0])"
  by (simp add: handler_defs Let_def generateSummary_def jsonMatch_def)

subsection \<open>Ingestion\<close>

text \<open>
  C2, as stated, fails: the handler has no status test. On the paused session S a chunk
  is accepted, gets sequence number 0, and the counter goes from 0 to 1; the only
  notification is chunk-processing.
\<close>

theorem chunk_while_paused_accepted:
  "map_option row_status (sessions paused_world ''S'') = Some paused
   \<and> chunkIndex (heap paused_world ! 0) = 0
   \<and> snd (audio_chunk 7 ''S'' [4, 5, 6] 3000 paused_world) =
       Some \<lparr>p_session = 0, p_sessionId = ''S'', p_chunkIndex = 0, p_timestamp = 3000\<rparr>
   \<and> chunkIndex (heap (fst (audio_chunk 7 ''S'' [4, 5, 6] 3000 paused_world)) ! 0) = 1
   \<and> emitted (fst (audio_chunk 7 ''S'' [4, 5, 6] 3000 paused_world)) =
       emitted paused_world @ [(Room ''S'', ChunkProcessing 0 3000)]"
  by (simp add: paused_world_def recording_world_def handler_defs Let_def)

text \<open>
  C2, amended. For an id with no registry entry the handler emits the error
  \<^verbatim>\<open>Session not found\<close> to the caller and changes nothing else, whatever else is or is
  not registered. For a registered session, whatever its status, the chunk is accepted:
  it is appended to the audio chunks, it gets the current counter as its sequence number,
  the counter goes up by one, and chunk-processing is emitted to the room.
\<close>

theorem audio_chunk_any_status:
  "(map_of (activeSessions w) sid' = None \<longrightarrow>
      audio_chunk sock sid' chunk t w =
        (emit (Socket sock) (ErrorMsg ''Session not found'') w, None))
   \<and> (map_of (activeSessions w) sid = Some r \<and> r < length (heap w) \<longrightarrow>
      snd (audio_chunk sock sid chunk t w) =
           Some \<lparr>p_session = r, p_sessionId = sid, p_chunkIndex = chunkIndex (heap w ! r),
                 p_timestamp = t\<rparr>
      \<and> chunkIndex (heap (fst (audio_chunk sock sid chunk t w)) ! r) =
           chunkIndex (heap w ! r) + 1
      \<and> audioChunks (heap (fst (audio_chunk sock sid chunk t w)) ! r) =
           audioChunks (heap w ! r) @ [chunk]
      \<and> emitted (fst (audio_chunk sock sid chunk t w)) =
           emitted w @ [(Room sid, ChunkProcessing (chunkIndex (heap w ! r)) t)]
      \<and> sessions (fst (audio_chunk sock sid chunk t w)) = sessions w)"
  by (simp add: handler_defs Let_def)

theorem audio_chunk_any_status_witness:
  "map_of (activeSessions paused_world) ''T'' = None
   \<and> map_of (activeSessions paused_world) ''S'' = Some 0
   \<and> 0 < length (heap paused_world)
   \<and> audio_chunk 7 ''T'' [4, 5, 6] 3000 paused_world =
       (emit (Socket 7) (ErrorMsg ''Session not found'') paused_world, None)
   \<and> chunkIndex (heap (fst (audio_chunk 7 ''S'' [4, 5, 6] 3000 paused_world)) ! 0) = 1
   \<and> audioChunks (heap (fst (audio_chunk 7 ''S'' [4, 5, 6] 3000 paused_world)) ! 0) = [[4, 5, 6]]"
proof -
  have h1: "map_of (activeSessions paused_world) ''S'' = Some 0"
    by (simp add: paused_world_def recording_world_def handler_defs Let_def)
  have h2: "0 < length (heap paused_world)"
    by (simp add: paused_world_def recording_world_def handler_defs Let_def)
  have h3: "map_of (activeSessions paused_world) ''T'' = None"
    by (simp add: paused_world_def recording_world_def handler_defs Let_def)
  have v: "chunkIndex (heap paused_world ! 0) = 0" "audioChunks (heap paused_world ! 0) = []"
    by (simp_all add: paused_world_def recording_world_def handler_defs Let_def)
  from audio_chunk_any_status
    [where w = paused_world and sid' = "''T''" and sid = "''S''" and r = 0 and sock = 7
       and chunk = "[4, 5, 6]" and t = 3000]
    v h1 h2 h3
  show ?thesis by simp
qed

subsection \<open>Failure of the summary\<close>

text \<open>
  C3. The spec asks that a session whose summary fails becomes \<open>failed\<close>, that the caller
  is told, and that the session leaves the registry. The catch block of the stop handler
  does the first two and never deletes the entry, which only the success path does:
  after start and stop of S with a summary call that throws, the row of S is \<open>failed\<close>,
  the caller has the error, and S is still registered with its object 0.
\<close>

theorem failed_session_stays_registered:
  "(let w = stop_finish (\<lambda>_. None) (\<lambda>_. Inl ''quota exceeded'') 7
              \<lparr>k_session = 0, k_sessionId = ''S'', k_duration = 8\<rparr> 12000 processing_world
    in (snd (stop_begin 7 ''S'' 9000 9001 recording_world),
        map_option row_status (sessions w ''S''), last (emitted w),
        map_of (activeSessions w) ''S''))
   = (Some \<lparr>k_session = 0, k_sessionId = ''S'', k_duration = 8\<rparr>,
      Some failed, (Socket 7, ErrorMsg ''Failed to complete session processing''), Some 0)"
  by (simp add: processing_world_def recording_world_def handler_defs Let_def
      generateSummary_def)

subsection \<open>Disconnect\<close>

lemma auto_pause_frame:
  "activeSessions (auto_pause clock w e) = activeSessions w"
  "length (heap (auto_pause clock w e)) = length (heap w)"
  "emitted (auto_pause clock w e) = emitted w"
  "sessions (auto_pause clock w e) = sessions w"
  by (auto simp: auto_pause_def modify_def split: prod.splits)

lemma auto_pause_other_object:
  "r \<noteq> snd e \<Longrightarrow> heap (auto_pause clock w e) ! r = heap w ! r"
  by (auto simp: auto_pause_def modify_def split: prod.splits)

lemma auto_pause_object:
  "r < length (heap w) \<Longrightarrow>
   heap (auto_pause clock w (sid, r)) ! r =
     (if is_set (pausedAt (heap w ! r)) then heap w ! r
      else (heap w ! r)\<lparr>pausedAt := Some (clock sid)\<rparr>)"
  by (auto simp: auto_pause_def modify_def)

text \<open>The sweep over a list of entries: what it leaves alone, and what it does to an
  entry of the list when no two entries share an object.\<close>

lemma sweep_frame:
  "activeSessions (foldl (auto_pause clock) w es) = activeSessions w"
  "length (heap (foldl (auto_pause clock) w es)) = length (heap w)"
  "emitted (foldl (auto_pause clock) w es) = emitted w"
  "sessions (foldl (auto_pause clock) w es) = sessions w"
  by (induction es arbitrary: w) (simp_all add: auto_pause_frame)

lemma sweep_other_object:
  "r \<notin> snd ` set es \<Longrightarrow> heap (foldl (auto_pause clock) w es) ! r = heap w ! r"
  by (induction es arbitrary: w) (simp_all add: auto_pause_other_object)

lemma sweep_object:
  assumes "distinct (map snd es)" and "(sid, r) \<in> set es" and "r < length (heap w)"
  shows "heap (foldl (auto_pause clock) w es) ! r =
     (if is_set (pausedAt (heap w ! r)) then heap w ! r
      else (heap w ! r)\<lparr>pausedAt := Some (clock sid)\<rparr>)"
  using assms
proof (induction es arbitrary: w)
  case Nil
  then show ?case by simp
next
  case (Cons e es)
  show ?case
  proof (cases "e = (sid, r)")
    case True
    with Cons.prems have "r \<notin> snd ` set es" by force
    then show ?thesis
      using True Cons.prems(3) by (simp add: sweep_other_object auto_pause_object)
  next
    case False
    with Cons.prems have mem: "(sid, r) \<in> set es"
      by simp
    then have "r \<in> snd ` set es"
      by force
    moreover from Cons.prems(1) have "snd e \<notin> snd ` set es"
      by simp
    ultimately have ne: "r \<noteq> snd e"
      by blast
    have "heap (foldl (auto_pause clock) (auto_pause clock w e) es) ! r =
       (if is_set (pausedAt (heap (auto_pause clock w e) ! r))
        then heap (auto_pause clock w e) ! r
        else (heap (auto_pause clock w e) ! r)\<lparr>pausedAt := Some (clock sid)\<rparr>)"
      using Cons.prems mem by (intro Cons.IH) (simp_all add: auto_pause_frame)
    then show ?thesis
      using ne by (simp add: auto_pause_other_object)
  qed
qed

lemma sweep_nothing_to_do:
  "list_all (\<lambda>e. is_set (pausedAt (heap w ! snd e))) es \<Longrightarrow> foldl (auto_pause clock) w es = w"
  by (induction es) (auto simp: auto_pause_def)

lemma sweep_all_set:
  assumes "distinct (map snd es)" and "list_all (\<lambda>e. snd e < length (heap w)) es"
    and "\<forall>s. clock s \<noteq> 0"
  shows "list_all (\<lambda>e. is_set (pausedAt (heap (foldl (auto_pause clock) w es) ! snd e))) es"
proof -
  have "is_set (pausedAt (heap (foldl (auto_pause clock) w es) ! snd e))" if "e \<in> set es" for e
  proof -
    obtain sid r where e: "e = (sid, r)" by (cases e)
    have "r < length (heap w)" using assms(2) that e by (auto simp: list_all_iff)
    then show ?thesis
      using sweep_object [OF assms(1), of sid r w clock] that e assms(3)
      by (auto simp: is_set_def)
  qed
  then show ?thesis by (simp add: list_all_iff)
qed

text \<open>
  What a disconnect does in memory. For every registered session it sets \<open>pausedAt\<close> to
  the clock reading if and only if \<open>pausedAt\<close> is not set, and leaves the object alone
  otherwise; a second disconnect right after the first changes nothing; the registry is
  the same after as before. (Clock readings are not 0, the instant of the epoch, which
  the truthiness test cannot tell from an absent field.)
\<close>

lemma disconnect_in_memory:
  assumes "wf w" and "map_of (activeSessions w) sid = Some r" and "\<forall>s. clock s \<noteq> 0"
  shows "activeSessions (disconnect clock w) = activeSessions w
    \<and> heap (disconnect clock w) ! r =
        (if is_set (pausedAt (heap w ! r)) then heap w ! r
         else (heap w ! r)\<lparr>pausedAt := Some (clock sid)\<rparr>)
    \<and> disconnect clock' (disconnect clock w) = disconnect clock w"
proof -
  from assms(1) have dr: "distinct (map snd (activeSessions w))"
    and rng: "list_all (\<lambda>e. snd e < length (heap w)) (activeSessions w)"
    by (simp_all add: wf_def)
  from assms(2) have mem: "(sid, r) \<in> set (activeSessions w)"
    by (rule map_of_SomeD)
  with rng have r: "r < length (heap w)"
    by (auto simp: list_all_iff)
  have a: "activeSessions (disconnect clock w) = activeSessions w"
    by (simp add: disconnect_def sweep_frame)
  have b: "heap (disconnect clock w) ! r =
        (if is_set (pausedAt (heap w ! r)) then heap w ! r
         else (heap w ! r)\<lparr>pausedAt := Some (clock sid)\<rparr>)"
    unfolding disconnect_def by (rule sweep_object [OF dr mem r])
  have "list_all (\<lambda>e. is_set (pausedAt (heap (disconnect clock w) ! snd e))) (activeSessions w)"
    unfolding disconnect_def by (rule sweep_all_set [OF dr rng assms(3)])
  then have d: "disconnect clock' (disconnect clock w) = disconnect clock w"
    unfolding disconnect_def [of clock' "disconnect clock w"] a
    by (rule sweep_nothing_to_do)
  from a b d show ?thesis by simp
qed

text \<open>The store and the rooms hear nothing of a disconnect, on any server state.\<close>

lemma disconnect_writes_nothing:
  "sessions (disconnect clock w) = sessions w"
  "transcripts (disconnect clock w) = transcripts w"
  "emitted (disconnect clock w) = emitted w"
  "activeSessions (disconnect clock w) = activeSessions w"
proof -
  have "transcripts (foldl (auto_pause clock) v es) = transcripts v" for v es
    by (induction es arbitrary: v) (auto simp: auto_pause_def modify_def)
  then show "transcripts (disconnect clock w) = transcripts w"
    by (simp add: disconnect_def)
qed (simp_all add: disconnect_def sweep_frame)

text \<open>The handler tests \<open>pausedAt\<close>, not a status: session S, stopped while recording and
  waiting for its summary, has status \<open>processing\<close> and no \<open>pausedAt\<close>; a disconnect at
  9500 sets its \<open>pausedAt\<close> to 9500.\<close>

lemma disconnect_marks_processing_session:
  "map_option row_status (sessions processing_world ''S'') = Some processing
   \<and> pausedAt (heap processing_world ! 0) = None
   \<and> pausedAt (heap (disconnect (same_instant 9500) processing_world) ! 0) = Some 9500
   \<and> map_option row_status (sessions (disconnect (same_instant 9500) processing_world) ''S'')
       = Some processing"
  by (simp add: processing_world_def recording_world_def handler_defs Let_def
      disconnect_def auto_pause_def is_set_def same_instant_def)

text \<open>
  C4. The spec asks that a disconnect pauses a recording session: \<open>pausedAt\<close> becomes the
  clock reading and the status becomes \<open>paused\<close>, persisted. The handler does the first
  and only builds the store update for the second, which is never sent. Session S is
  registered and recording; after a disconnect at 5000 its \<open>pausedAt\<close> is 5000, it is
  still registered, and its row in the store still says \<open>recording\<close>; no notification
  is emitted either.
\<close>

theorem disconnect_status_not_persisted:
  "map_of (activeSessions recording_world) ''S'' = Some 0
   \<and> map_option row_status (sessions recording_world ''S'') = Some recording
   \<and> pausedAt (heap recording_world ! 0) = None
   \<and> pausedAt (heap (disconnect (same_instant 5000) recording_world) ! 0) = Some 5000
   \<and> map_of (activeSessions (disconnect (same_instant 5000) recording_world)) ''S'' = Some 0
   \<and> map_option row_status (sessions (disconnect (same_instant 5000) recording_world) ''S'')
       = Some recording
   \<and> emitted (disconnect (same_instant 5000) recording_world) = emitted recording_world"
  by (simp add: recording_world_def handler_defs Let_def
      disconnect_def auto_pause_def is_set_def same_instant_def)

subsection \<open>Duration\<close>

text \<open>The spec's scenario, in milliseconds: start at 0, pause at 10 s, resume at 40 s,
  stop at 50 s; the stop handler computes 20 seconds.\<close>

lemma duration_after_pause_and_resume:
  "(let w1 = start_session ''S'' None microphone 0 1 init;
        w2 = pause_session 7 ''S'' 10000 10001 w1;
        w3 = resume_session 7 ''S'' 40000 40001 w2
    in map_option k_duration (snd (stop_begin 7 ''S'' 50000 50001 w3))) = Some 20"
  by (simp add: handler_defs Let_def)

text \<open>
  C5. The spec's duration also leaves out the pause that is still open at the stop:
  \<open>(now - startedAt) - totalPausedDuration - (now - pausedAt)\<close>. The stop handler
  subtracts \<open>totalPausedDuration\<close> only, which the resume handler alone increases. For
  start at 0, pause at 10 s and stop at 50 s while paused, \<open>pausedAt\<close> is 10000 and the
  spec's value is 10 seconds; the handler computes and persists 50.
\<close>

theorem stop_while_paused_counts_pause:
  "(let w1 = start_session ''S'' None microphone 0 1 init;
        w2 = pause_session 7 ''S'' 10000 10001 w1;
        r = stop_begin 7 ''S'' 50000 50001 w2
    in (pausedAt (heap w2 ! 0), totalPausedDuration (heap w2 ! 0),
        map_option k_duration (snd r), map_option row_duration (sessions (fst r) ''S'')))
   = (Some 10000, 0, Some 50, Some 50)"
  by (simp add: handler_defs Let_def)

subsection \<open>Pause and resume\<close>

text \<open>
  C6, as stated, fails: the pause handler has no status test. On session S, paused at
  2000, a second pause at 3000 moves \<open>pausedAt\<close> to 3000 and is answered with the
  status notification, not with an error.
\<close>

theorem second_pause_moves_pausedAt:
  "map_option row_status (sessions paused_world ''S'') = Some paused
   \<and> pausedAt (heap paused_world ! 0) = Some 2000
   \<and> pausedAt (heap (pause_session 7 ''S'' 3000 3001 paused_world) ! 0) = Some 3000
   \<and> emitted (pause_session 7 ''S'' 3000 3001 paused_world) =
       emitted paused_world @ [(Room ''S'', SessionStatus paused ''S'' 3001)]"
  by (simp add: paused_world_def recording_world_def handler_defs Let_def)

text \<open>
  C6, amended. For every registered session, paused already or not, a pause succeeds: it
  sets \<open>pausedAt\<close> to the clock reading, replacing an earlier value, sets the status of
  the session's row to \<open>paused\<close>, emits the status notification to the room and leaves the
  registry as it is. A pause fails only for an id with no registry entry: the caller gets
  the error \<^verbatim>\<open>Session not found\<close> and nothing else changes.
\<close>

theorem pause_any_status:
  "(map_of (activeSessions w) sid' = None \<longrightarrow>
      pause_session sock sid' now ts w =
        emit (Socket sock) (ErrorMsg ''Session not found'') w)
   \<and> (map_of (activeSessions w) sid = Some r \<and> r < length (heap w) \<longrightarrow>
      heap (pause_session sock sid now ts w) =
           (heap w)[r := (heap w ! r)\<lparr>pausedAt := Some now\<rparr>]
      \<and> pausedAt (heap (pause_session sock sid now ts w) ! r) = Some now
      \<and> sessions (pause_session sock sid now ts w) sid =
           map_option (\<lambda>row. row\<lparr>row_status := paused\<rparr>) (sessions w sid)
      \<and> emitted (pause_session sock sid now ts w) =
           emitted w @ [(Room sid, SessionStatus paused sid ts)]
      \<and> activeSessions (pause_session sock sid now ts w) = activeSessions w)"
  by (simp add: handler_defs Let_def split: option.splits)

theorem pause_any_status_witness:
  "map_of (activeSessions paused_world) ''T'' = None
   \<and> map_of (activeSessions paused_world) ''S'' = Some 0
   \<and> 0 < length (heap paused_world)
   \<and> pause_session 7 ''T'' 3000 3001 paused_world =
       emit (Socket 7) (ErrorMsg ''Session not found'') paused_world
   \<and> pausedAt (heap (pause_session 7 ''S'' 3000 3001 paused_world) ! 0) = Some 3000
   \<and> map_option row_status (sessions (pause_session 7 ''S'' 3000 3001 paused_world) ''S'')
       = Some paused
   \<and> activeSessions (pause_session 7 ''S'' 3000 3001 paused_world) =
       activeSessions paused_world"
proof -
  have h1: "map_of (activeSessions paused_world) ''S'' = Some 0"
    by (simp add: paused_world_def recording_world_def handler_defs Let_def)
  have h2: "0 < length (heap paused_world)"
    by (simp add: paused_world_def recording_world_def handler_defs Let_def)
  have h3: "map_of (activeSessions paused_world) ''T'' = None"
    by (simp add: paused_world_def recording_world_def handler_defs Let_def)
  have r: "map_option row_status (sessions paused_world ''S'') = Some paused"
    by (simp add: paused_world_def recording_world_def handler_defs Let_def)
  from pause_any_status
    [where w = paused_world and sid' = "''T''" and sid = "''S''" and r = 0 and sock = 7
       and now = 3000 and ts = 3001]
    r h1 h2 h3
  show ?thesis by (auto simp: option.map_comp comp_def)
qed

text \<open>
  C7. For a registered session in status \<open>recording\<close>, a pause at \<open>t1\<close> followed by a
  resume at \<open>t2\<close> adds exactly \<open>t2 - t1\<close> to \<open>totalPausedDuration\<close>, clears \<open>pausedAt\<close>,
  leaves the status at \<open>recording\<close>, and changes nothing else of the session object, so
  neither \<open>chunkIndex\<close> nor \<open>transcriptChunks\<close>. The reading \<open>t1\<close> is a time after the
  epoch, as \<^verbatim>\<open>Date.now()\<close> gives.
\<close>

theorem pause_then_resume:
  assumes "map_of (activeSessions w) sid = Some r" and "r < length (heap w)"
    and "sessions w sid = Some row" and "row_status row = recording"
    and "0 < t1"
  shows "(let w' = resume_session sock sid t2 ts2 (pause_session sock sid t1 ts1 w) in
     heap w' = (heap w)[r := (heap w ! r)
                  \<lparr>totalPausedDuration := totalPausedDuration (heap w ! r) + (t2 - t1),
                   pausedAt := None\<rparr>]
     \<and> totalPausedDuration (heap w' ! r) = totalPausedDuration (heap w ! r) + (t2 - t1)
     \<and> pausedAt (heap w' ! r) = None
     \<and> map_option row_status (sessions w' sid) = Some recording
     \<and> chunkIndex (heap w' ! r) = chunkIndex (heap w ! r)
     \<and> transcriptChunks (heap w' ! r) = transcriptChunks (heap w ! r)
     \<and> activeSessions w' = activeSessions w)"
  using assms by (simp add: handler_defs Let_def split: option.splits)

theorem pause_then_resume_witness:
  "map_of (activeSessions one_chunk_world) ''S'' = Some 0
   \<and> 0 < length (heap one_chunk_world)
   \<and> map_option row_status (sessions one_chunk_world ''S'') = Some recording
   \<and> (0::int) < 10000
   \<and> (let w' = resume_session 7 ''S'' 40000 40001
                  (pause_session 7 ''S'' 10000 10001 one_chunk_world) in
       totalPausedDuration (heap w' ! 0) = 30000
       \<and> pausedAt (heap w' ! 0) = None
       \<and> map_option row_status (sessions w' ''S'') = Some recording
       \<and> chunkIndex (heap w' ! 0) = 1
       \<and> transcriptChunks (heap w' ! 0) = [])"
proof -
  have h1: "map_of (activeSessions one_chunk_world) ''S'' = Some 0"
    by (simp add: one_chunk_world_def recording_world_def handler_defs Let_def)
  have h2: "0 < length (heap one_chunk_world)"
    by (simp add: one_chunk_world_def recording_world_def handler_defs Let_def)
  have h3: "sessions one_chunk_world ''S'' = Some \<lparr>row_user_id = None, row_status = recording,
      row_audio_source = microphone, row_duration = 0\<rparr>"
    by (simp add: one_chunk_world_def recording_world_def handler_defs Let_def)
  have h4: "row_status \<lparr>row_user_id = None, row_status = recording,
      row_audio_source = microphone, row_duration = 0\<rparr> = recording"
    by simp
  have h5: "(0::int) < 10000"
    by simp
  have v: "totalPausedDuration (heap one_chunk_world ! 0) = 0"
    "chunkIndex (heap one_chunk_world ! 0) = 1"
    "transcriptChunks (heap one_chunk_world ! 0) = []"
    by (simp_all add: one_chunk_world_def recording_world_def handler_defs Let_def)
  from pause_then_resume [OF h1 h2 h3 h4 h5, of 7 40000 40001 10001] v h1 h2 h3
  show ?thesis by (simp add: Let_def)
qed

subsection \<open>Starting a session under a registered id\<close>

text \<open>
  C8, as stated, fails: the start handler sets the registry entry without looking.
  Session S has received one chunk, so its counter is 1; a second start under the id S
  is answered with the status notification, not with an error, and the id now names a new
  object with counter 0 and the new audio source.
\<close>

theorem second_start_replaces_session:
  "map_of (activeSessions one_chunk_world) ''S'' = Some 0
   \<and> chunkIndex (heap one_chunk_world ! 0) = 1
   \<and> map_of (activeSessions (start_session ''S'' None tab_share 3000 3001 one_chunk_world)) ''S''
       = Some 1
   \<and> chunkIndex (heap (start_session ''S'' None tab_share 3000 3001 one_chunk_world) ! 1) = 0
   \<and> audioSource (heap (start_session ''S'' None tab_share 3000 3001 one_chunk_world) ! 1)
       = tab_share
   \<and> emitted (start_session ''S'' None tab_share 3000 3001 one_chunk_world) =
       emitted one_chunk_world @ [(Room ''S'', SessionStatus recording ''S'' 3001)]"
  by (simp add: one_chunk_world_def recording_world_def handler_defs Let_def)

text \<open>
  C8, amended. Starting a session under an id that is registered does not fail: the id's
  entry is given a fresh session object (no chunks, counter 0, start time now, nothing
  paused), and the status notification is emitted. The registry keeps the same ids, each
  once, so there is still one session state per id.
\<close>

theorem start_session_registered_id:
  assumes "map_of (activeSessions w) sid = Some r"
    and "distinct (map fst (activeSessions w))"
  shows "(let w' = start_session sid uid src now ts w in
     map_of (activeSessions w') sid = Some (length (heap w))
     \<and> heap w' = heap w @
          [\<lparr>sessionId = sid, userId = uid, audioChunks = [], transcriptChunks = [],
            chunkIndex = 0, startTime = now, pausedAt = None, totalPausedDuration = 0,
            audioSource = src\<rparr>]
     \<and> map fst (activeSessions w') = map fst (activeSessions w)
     \<and> distinct (map fst (activeSessions w'))
     \<and> emitted w' = emitted w @ [(Room sid, SessionStatus recording sid ts)])"
proof -
  let ?w' = "start_session sid uid src now ts w"
  have reg: "activeSessions ?w' = AList.update sid (length (heap w)) (activeSessions w)"
    by (simp add: handler_defs Let_def split: option.splits)
  have mem: "sid \<in> set (map fst (activeSessions w))"
    using assms(1) by (metis map_of_eq_None_iff option.distinct(1) set_map)
  have a: "map_of (activeSessions ?w') sid = Some (length (heap w))"
    unfolding reg by (simp add: update_conv')
  have b: "map fst (activeSessions ?w') = map fst (activeSessions w)"
    unfolding reg using mem by (simp add: update_keys)
  have c: "distinct (map fst (activeSessions ?w'))"
    unfolding b by (rule assms(2))
  have d: "heap ?w' = heap w @
          [\<lparr>sessionId = sid, userId = uid, audioChunks = [], transcriptChunks = [],
            chunkIndex = 0, startTime = now, pausedAt = None, totalPausedDuration = 0,
            audioSource = src\<rparr>]"
    by (simp add: handler_defs Let_def split: option.splits)
  have e: "emitted ?w' = emitted w @ [(Room sid, SessionStatus recording sid ts)]"
    by (simp add: handler_defs Let_def split: option.splits)
  from a b c d e show ?thesis by (simp add: Let_def)
qed

theorem start_session_registered_id_witness:
  "map_of (activeSessions one_chunk_world) ''S'' = Some 0
   \<and> distinct (map fst (activeSessions one_chunk_world))
   \<and> (let w' = start_session ''S'' None tab_share 3000 3001 one_chunk_world in
        map_of (activeSessions w') ''S'' = Some 1
        \<and> map fst (activeSessions w') = [''S'']
        \<and> distinct (map fst (activeSessions w')))"
proof -
  have h1: "map_of (activeSessions one_chunk_world) ''S'' = Some 0"
    by (simp add: one_chunk_world_def recording_world_def handler_defs Let_def)
  have h2: "distinct (map fst (activeSessions one_chunk_world))"
    by (simp add: one_chunk_world_def recording_world_def handler_defs Let_def)
  have v: "length (heap one_chunk_world) = 1" "map fst (activeSessions one_chunk_world) = [''S'']"
    by (simp_all add: one_chunk_world_def recording_world_def handler_defs Let_def)
  from start_session_registered_id [OF h1 h2, of None tab_share 3000 3001] v h1 h2
  show ?thesis by (simp add: Let_def)
qed

subsection \<open>Failure of one transcription\<close>



subsection \<open>Malformed model output\<close>

text \<open>
  C10. \<^verbatim>\<open>generateSummary\<close> fails exactly when the model call throws. When the call
  returns a text with no parseable JSON object (no brace-delimited match, or a match that
  \<^verbatim>\<open>JSON.parse\<close> rejects), the result is the raw text as the summary, with empty key
  points, action items and decisions.
\<close>

theorem generateSummary_malformed_output:
  "((\<exists>e. generateSummary parse api t = Inl e) = (\<exists>e. api (prompt t) = Inl e))
   \<and> (api (prompt t) = Inr text \<and>
        (jsonMatch text = None \<or> (\<exists>m. jsonMatch text = Some m \<and> parse m = None))
      \<longrightarrow> generateSummary parse api t = Inr (fallback text))"
  by (auto simp: generateSummary_def split: sum.splits option.splits)

theorem generateSummary_malformed_output_witness:
  "(\<lambda>_. Inr ''Summary: {not json}'') (prompt ''hello'')
       = (Inr ''Summary: {not json}'' :: string + string)
   \<and> jsonMatch ''Summary: {not json}'' = Some ''{not json}''
   \<and> (\<lambda>_. None :: (string \<times> json) list option) ''{not json}'' = None
   \<and> generateSummary (\<lambda>_. None) (\<lambda>_. Inr ''Summary: {not json}'') ''hello'' =
       Inr \<lparr>summary = JStr ''Summary: {not json}'', keyPoints = JArr [], actionItems = JArr [],
            decisions = JArr []\<rparr>"
  using generateSummary_malformed_output
    [of "\<lambda>_. None" "\<lambda>_. Inr ''Summary: {not json}''" "''hello''" "''Summary: {not json}''"]
  by (simp add: jsonMatch_def fallback_def)

subsection \<open>The registry invariant\<close>

text \<open>The invariant holds on the empty server and every handler keeps it.\<close>

lemma update_values:
  "set (map snd (AList.update k v al)) \<subseteq> insert v (set (map snd al))"
  by (induction al) auto

lemma distinct_values_update:
  "distinct (map snd al) \<Longrightarrow> v \<notin> snd ` set al \<Longrightarrow> distinct (map snd (AList.update k v al))"
proof (induction al)
  case Nil
  then show ?case by simp
next
  case (Cons e al)
  have "set (map snd (AList.update k v al)) \<subseteq> insert v (set (map snd al))"
    by (rule update_values)
  with Cons show ?case by (cases e) auto
qed

lemma distinct_values_delete:
  "distinct (map snd al) \<Longrightarrow> distinct (map snd (AList.delete k al))"
  by (simp add: AList.delete_eq distinct_map_filter)

lemma wf_init: "wf init"
  by (simp add: wf_def init_def)

lemma wf_start_session: "wf w \<Longrightarrow> wf (start_session sid uid src now ts w)"
proof -
  assume w: "wf w"
  have reg: "activeSessions (start_session sid uid src now ts w) =
      AList.update sid (length (heap w)) (activeSessions w)"
    and hp: "length (heap (start_session sid uid src now ts w)) = Suc (length (heap w))"
    by (simp_all add: handler_defs Let_def split: option.splits)
  from w have fresh: "length (heap w) \<notin> snd ` set (activeSessions w)"
    by (auto simp: wf_def list_all_iff)
  have sub: "set (map snd (AList.update sid (length (heap w)) (activeSessions w)))
      \<subseteq> insert (length (heap w)) (set (map snd (activeSessions w)))"
    by (rule update_values)
  from w have old: "\<And>r. r \<in> set (map snd (activeSessions w)) \<Longrightarrow> r < length (heap w)"
    by (auto simp: wf_def list_all_iff)
  have "snd e < Suc (length (heap w))"
    if "e \<in> set (AList.update sid (length (heap w)) (activeSessions w))" for e
  proof -
    from that have "snd e \<in> set (map snd (AList.update sid (length (heap w)) (activeSessions w)))"
      by simp
    with sub have "snd e = length (heap w) \<or> snd e \<in> set (map snd (activeSessions w))"
      by blast
    then show ?thesis
      using old by (auto simp: less_Suc_eq)
  qed
  then have rng: "list_all (\<lambda>e. snd e < Suc (length (heap w)))
      (AList.update sid (length (heap w)) (activeSessions w))"
    by (simp add: list_all_iff)
  from w fresh rng show ?thesis
    unfolding wf_def reg hp
    by (simp add: wf_def distinct_update distinct_values_update)
qed

lemma wf_frame:
  "activeSessions w' = activeSessions w \<Longrightarrow> length (heap w') = length (heap w) \<Longrightarrow>
   wf w \<Longrightarrow> wf w'"
  by (simp add: wf_def)

lemma wf_audio_chunk: "wf w \<Longrightarrow> wf (fst (audio_chunk sock sid chunk t w))"
  by (rule wf_frame [of _ w]) (simp_all add: handler_defs Let_def split: option.splits)

lemma wf_transcription_settled: "wf w \<Longrightarrow> wf (transcription_settled p outcome w)"
  by (rule wf_frame [of _ w])
    (simp_all add: handler_defs Let_def split: sum.splits prod.splits)

lemma wf_pause_session: "wf w \<Longrightarrow> wf (pause_session sock sid now ts w)"
  by (rule wf_frame [of _ w]) (simp_all add: handler_defs Let_def split: option.splits)

lemma wf_resume_session: "wf w \<Longrightarrow> wf (resume_session sock sid now ts w)"
  by (rule wf_frame [of _ w]) (simp_all add: handler_defs Let_def split: option.splits)

lemma wf_stop_begin: "wf w \<Longrightarrow> wf (fst (stop_begin sock sid now ts w))"
  by (rule wf_frame [of _ w]) (simp_all add: handler_defs Let_def split: option.splits)

lemma wf_disconnect: "wf w \<Longrightarrow> wf (disconnect clock w)"
  by (rule wf_frame [of _ w]) (simp_all add: disconnect_def sweep_frame)

lemma wf_stop_finish: "wf w \<Longrightarrow> wf (stop_finish parse api sock k ts w)"
proof -
  assume w: "wf w"
  have hp: "length (heap (stop_finish parse api sock k ts w)) = length (heap w)"
    by (simp add: handler_defs Let_def split: sum.splits option.splits)
  have "activeSessions (stop_finish parse api sock k ts w) = activeSessions w \<or>
      activeSessions (stop_finish parse api sock k ts w) =
        AList.delete (k_sessionId k) (activeSessions w)"
    by (simp add: handler_defs Let_def split: sum.splits option.splits)
  then show ?thesis
  proof
    assume "activeSessions (stop_finish parse api sock k ts w) = activeSessions w"
    with hp w show ?thesis by (simp add: wf_def)
  next
    assume d: "activeSessions (stop_finish parse api sock k ts w) =
        AList.delete (k_sessionId k) (activeSessions w)"
    from w show ?thesis
      unfolding wf_def d hp
      by (auto simp: distinct_delete distinct_values_delete list_all_iff AList.delete_eq
          distinct_map_filter)
  qed
qed

end
